theory Spec2Isabelle
  imports Complex_Main "HOL-Library.Log_Nat"
begin

section \<open>Site financial tracking: balance engine, role gate, invoice mapping, funds endpoint\<close>

text \<open>
  The development embeds four pieces of the application:
  \<^item> \<open>calculateSiteFinancials\<close> of the sites page (the per-site balance summary),
  \<^item> \<open>checkRole\<close>, the request middleware,
  \<^item> \<open>mapInvoices\<close> of the invoices page,
  \<^item> the request handler of the \<open>increment_funds\<close> function.

  Amounts are JavaScript numbers in the source. The balance engine is embedded twice.
  The first embedding takes them as exact rationals: sums and differences are the
  mathematical ones. It serves the properties that are the function's own computation.
  The second takes them as IEEE doubles with rounded additions, and serves the property
  that rounding decides (the sum of the two advance buckets). The endpoint works on
  untyped JSON, numbers as doubles.
\<close>

type_synonym number = rat

subsection \<open>JavaScript array helpers\<close>

text \<open>\<open>Array.prototype.includes\<close>, \<open>reduce\<close> with an initial value, \<open>find\<close> and
  \<open>filter\<close>: \<open>includes\<close> is membership, \<open>reduce\<close> is a left fold, \<open>find\<close> returns the
  first match or nothing.\<close>

definition array_includes :: "'a list \<Rightarrow> 'a \<Rightarrow> bool" where
  "array_includes xs x = (x \<in> set xs)"

definition reduce :: "('b \<Rightarrow> 'a \<Rightarrow> 'b) \<Rightarrow> 'b \<Rightarrow> 'a list \<Rightarrow> 'b" where
  "reduce f init xs = foldl f init xs"

subsection \<open>Records of the balance engine\<close>

text \<open>Modelled from the spec: the enum \<open>AdvancePurpose\<close> is declared in \<open>lib/types\<close>, which
  is not among the sources. Its members are the four of the spec's data model (ADVANCE,
  SAFETY_SHOES, TOOLS, OTHER), the same four that \<open>AdvanceForm\<close> offers. The page reads
  the purpose with an unchecked cast (\<open>advance.purpose as AdvancePurpose\<close>), so a stored
  value outside the enumeration reaches the engine as it is: \<open>UnlistedPurpose s\<close> is such
  a value.\<close>

datatype AdvancePurpose = ADVANCE | SAFETY_SHOES | TOOLS | OTHER | UnlistedPurpose string

text \<open>Of each record only the fields the engine reads are kept. An invoice's \<open>payment_by\<close>
  is a property the engine reads from the object; it is \<open>None\<close> when the object has no
  such property.\<close>

record Site =
  id_Site :: string

record Expense =
  amount_Expense :: number

record Advance =
  purpose :: AdvancePurpose
  amount_Advance :: number

record FundsReceived =
  amount_FundsReceived :: number

record Invoice =
  payment_by :: "string option"
  netAmount :: number

record BalanceSummary =
  fundsReceived :: number
  totalExpenditure :: number
  totalAdvances :: number
  debitsToWorker :: number
  invoicesPaid :: number
  pendingInvoices :: number
  totalBalance :: number

definition DEBIT_ADVANCE_PURPOSES :: "AdvancePurpose list" where
  "DEBIT_ADVANCE_PURPOSES = [SAFETY_SHOES, TOOLS, OTHER]"

subsection \<open>The balance engine\<close>

text \<open>The argument \<open>siteId\<close> is a string in the signature; \<open>None\<close> stands for a call
  with \<open>null\<close> or \<open>undefined\<close>. The guard \<open>if (siteId)\<close> is JavaScript truthiness: a
  string is truthy when it is not empty.\<close>

definition truthy_string :: "string option \<Rightarrow> bool" where
  "truthy_string v = (case v of None \<Rightarrow> False | Some s \<Rightarrow> s \<noteq> [])"

text \<open>The object literal of the final \<open>return\<close>, reached when the guard fails or no site
  has the id.\<close>

definition fallbackSummary :: BalanceSummary where
  "fallbackSummary =
     \<lparr>fundsReceived = 0, totalExpenditure = 0, totalAdvances = 0, debitsToWorker = 0,
      invoicesPaid = 0, pendingInvoices = 0, totalBalance = 0\<rparr>"

text \<open>The function closes over the page's state \<open>sites\<close>, \<open>expenses\<close>, \<open>advances\<close>,
  \<open>fundsReceived\<close> and \<open>invoices\<close>; they are explicit arguments here. The local constants
  keep their names.\<close>

definition calculateSiteFinancials ::
  "Site list \<Rightarrow> Expense list \<Rightarrow> Advance list \<Rightarrow> FundsReceived list \<Rightarrow> Invoice list \<Rightarrow>
   string option \<Rightarrow> BalanceSummary" where
  "calculateSiteFinancials sites expenses advances funds invoices siteId =
     (if truthy_string siteId then
        (case find (\<lambda>s. Some (id_Site s) = siteId) sites of
           Some site \<Rightarrow>
             (let totalExpenses = reduce (\<lambda>sum expense. sum + amount_Expense expense) 0 expenses;
                  totalFunds = reduce (\<lambda>sum fund. sum + amount_FundsReceived fund) 0 funds;
                  totalAdvances' = reduce (\<lambda>sum advance.
                      if \<not> array_includes DEBIT_ADVANCE_PURPOSES (purpose advance)
                      then sum + amount_Advance advance else sum) 0 advances;
                  totalDebitToWorker = reduce (\<lambda>sum advance.
                      if array_includes DEBIT_ADVANCE_PURPOSES (purpose advance)
                      then sum + amount_Advance advance else sum) 0 advances;
                  supervisorInvoiceTotal =
                    reduce (\<lambda>sum invoice. sum + netAmount invoice) 0
                      (filter (\<lambda>invoice. payment_by invoice = Some ''supervisor'') invoices);
                  totalBalance' = totalFunds - totalExpenses - totalAdvances' - supervisorInvoiceTotal
              in \<lparr>fundsReceived = totalFunds,
                  totalExpenditure = totalExpenses,
                  totalAdvances = totalAdvances',
                  debitsToWorker = totalDebitToWorker,
                  invoicesPaid = supervisorInvoiceTotal,
                  pendingInvoices = 0,
                  totalBalance = totalBalance'\<rparr>)
         | None \<Rightarrow> fallbackSummary)
      else fallbackSummary)"

subsection \<open>The role gate\<close>

text \<open>\<open>checkRole\<close> takes the allowed roles and returns an Express middleware. The request
  carries the authenticated user, if any. The middleware's effects are a response sent
  through \<open>res\<close> and a call of \<open>next\<close>; both are recorded in a state that the model
  passes through: \<open>res.status(c)\<close> stores the status code, \<open>res.json(o)\<close> sends the
  object \<open>o\<close>, and \<open>next()\<close> is counted. The role type comes from \<open>lib/types\<close> and is a
  type parameter.\<close>

record 'r User =
  role :: 'r

record 'r Request =
  user :: "'r User option"

record ExpressResponse =
  statusCode :: nat
  sent :: "(string \<times> string) list option"

record Exchange =
  res :: ExpressResponse
  next_calls :: nat

definition res_status :: "nat \<Rightarrow> ExpressResponse \<Rightarrow> ExpressResponse" where
  "res_status code r = r\<lparr>statusCode := code\<rparr>"

definition res_json :: "(string \<times> string) list \<Rightarrow> ExpressResponse \<Rightarrow> ExpressResponse" where
  "res_json obj r = r\<lparr>sent := Some obj\<rparr>"

definition checkRole :: "'r list \<Rightarrow> 'r Request \<Rightarrow> Exchange \<Rightarrow> Exchange" where
  "checkRole allowedRoles req x =
     (case user req of
        None \<Rightarrow> x\<lparr>res := res_json [(''error'', ''Unauthorized'')] (res_status 401 (res x))\<rparr>
      | Some u \<Rightarrow>
          if \<not> array_includes allowedRoles (role u)
          then x\<lparr>res := res_json [(''error'', ''Forbidden'')] (res_status 403 (res x))\<rparr>
          else x\<lparr>next_calls := Suc (next_calls x)\<rparr>)"

text \<open>A fresh exchange: Express starts a response with status 200 and nothing sent.\<close>

definition fresh :: Exchange where
  "fresh = \<lparr>res = \<lparr>statusCode = 200, sent = None\<rparr>, next_calls = 0\<rparr>"

subsection \<open>Mapping invoice rows\<close>

text \<open>A row of \<open>site_invoices\<close> arrives untyped (\<open>data: any[]\<close>): it is a function from
  column names to JavaScript values, \<open>Undefined\<close> where the row has no such property.
  \<open>Object\<close> stands for any object or array. \<open>truthy\<close> is JavaScript truthiness and
  \<open>js_or\<close> the operator \<open>||\<close>.\<close>

datatype column = Undefined | Null | Boolean bool | Text string | Numeric number | Object

fun truthy :: "column \<Rightarrow> bool" where
  "truthy Undefined = False"
| "truthy Null = False"
| "truthy (Boolean b) = b"
| "truthy (Text s) = (s \<noteq> [])"
| "truthy (Numeric n) = (n \<noteq> 0)"
| "truthy Object = True"

definition js_or :: "column \<Rightarrow> column \<Rightarrow> column" where
  "js_or a b = (if truthy a then a else b)"

text \<open>The mapped invoice is an object literal: a list of property names and values, in
  the order of the source. \<open>Number(x)\<close>, \<open>new Date(x)\<close> and \<open>JSON.parse(x.toString())\<close>
  are the runtime's; they are parameters, and \<open>JSON_parse\<close> returns \<open>None\<close> where
  \<open>JSON.parse\<close> throws a \<open>SyntaxError\<close>.\<close>

datatype ('n, 'd, 'j) property =
  Raw column | Num 'n | Date 'd | Json 'j | EmptyArray | EmptyObject

datatype js_error = SyntaxError

definition mapInvoice ::
  "(column \<Rightarrow> 'n) \<Rightarrow> (column \<Rightarrow> 'd) \<Rightarrow> (column \<Rightarrow> 'j option) \<Rightarrow> (string \<Rightarrow> column) \<Rightarrow>
   js_error + (string \<times> ('n, 'd, 'j) property) list" where
  "mapInvoice Number NewDate JSON_parse invoice =
     (case (if truthy (invoice ''material_items'')
            then map_option Json (JSON_parse (invoice ''material_items''))
            else Some EmptyArray) of
        None \<Rightarrow> Inl SyntaxError
      | Some materialItems \<Rightarrow>
          (case (if truthy (invoice ''bank_details'')
                 then map_option Json (JSON_parse (invoice ''bank_details''))
                 else Some EmptyObject) of
             None \<Rightarrow> Inl SyntaxError
           | Some bankDetails \<Rightarrow>
               Inr [(''id'', Raw (invoice ''id'')),
                    (''date'', Date (NewDate (invoice ''date''))),
                    (''partyId'', Raw (invoice ''party_id'')),
                    (''partyName'', Raw (invoice ''party_name'')),
                    (''material'', Raw (invoice ''material'')),
                    (''quantity'', Num (Number (invoice ''quantity''))),
                    (''rate'', Num (Number (invoice ''rate''))),
                    (''gstPercentage'', Num (Number (invoice ''gst_percentage''))),
                    (''grossAmount'', Num (Number (invoice ''gross_amount''))),
                    (''netAmount'', Num (Number (invoice ''net_amount''))),
                    (''materialItems'', materialItems),
                    (''bankDetails'', bankDetails),
                    (''billUrl'', Raw (js_or (invoice ''bill_url'') (Text []))),
                    (''invoiceImageUrl'', Raw (js_or (invoice ''invoice_image_url'') (Text []))),
                    (''paymentStatus'', Raw (invoice ''payment_status'')),
                    (''createdBy'', Raw (js_or (invoice ''created_by'') (Text []))),
                    (''createdAt'', Date (NewDate (invoice ''created_at''))),
                    (''approverType'', Raw (js_or (invoice ''approver_type'') (Text ''ho''))),
                    (''siteId'', Raw (invoice ''site_id'')),
                    (''status'', Raw (invoice ''payment_status'')),
                    (''vendorName'', Raw (invoice ''party_name'')),
                    (''invoiceNumber'', Raw (invoice ''id'')),
                    (''amount'', Num (Number (invoice ''net_amount'')))]))"

text \<open>\<open>data.map\<close> over the rows; an exception in one row ends the whole call.\<close>

fun mapInvoices ::
  "(column \<Rightarrow> 'n) \<Rightarrow> (column \<Rightarrow> 'd) \<Rightarrow> (column \<Rightarrow> 'j option) \<Rightarrow> (string \<Rightarrow> column) list \<Rightarrow>
   js_error + (string \<times> ('n, 'd, 'j) property) list list" where
  "mapInvoices Number NewDate JSON_parse [] = Inr []"
| "mapInvoices Number NewDate JSON_parse (invoice # data) =
     (case mapInvoice Number NewDate JSON_parse invoice of
        Inl e \<Rightarrow> Inl e
      | Inr v \<Rightarrow>
          (case mapInvoices Number NewDate JSON_parse data of
             Inl e \<Rightarrow> Inl e
           | Inr vs \<Rightarrow> Inr (v # vs)))"

text \<open>Reading a property of a mapped invoice.\<close>

definition property_of :: "(string \<times> 'v) list \<Rightarrow> string \<Rightarrow> 'v option" where
  "property_of obj key = map_of obj key"

subsection \<open>IEEE doubles\<close>

text \<open>A JavaScript number is an IEEE 754 binary64 value: a finite value, an infinity or NaN.
  A finite value is kept as the rational it denotes (the two zeros are one value; they
  are equal under \<open>===\<close>). An arithmetic result is the exact result rounded to the nearest
  double, ties to the even significand: \<open>exponent a\<close> is the binary exponent of a positive
  \<open>a\<close> (the \<open>e\<close> with \<open>2^e \<le> a < 2^(e+1)\<close>), \<open>quantum a\<close> the spacing of the doubles
  around \<open>a\<close> (53 significant bits, and \<open>2^-1074\<close> in the subnormal range), and a result
  of magnitude \<open>2^1024\<close> or more after rounding is an infinity.\<close>

datatype double = Finite rat | PlusInfinity | MinusInfinity | NaN

definition pow2 :: "int \<Rightarrow> rat" where
  "pow2 e = (if 0 \<le> e then 2 ^ nat e else 1 / 2 ^ nat (- e))"

definition exponent :: "rat \<Rightarrow> int" where
  "exponent a =
     (if 1 \<le> a then bitlen \<lfloor>a\<rfloor> - 1
      else if a * pow2 (bitlen \<lfloor>1 / a\<rfloor> - 1) = 1 then 1 - bitlen \<lfloor>1 / a\<rfloor>
      else - bitlen \<lfloor>1 / a\<rfloor>)"

definition quantum :: "rat \<Rightarrow> rat" where
  "quantum a = pow2 (max (exponent a) (- 1022) - 52)"

text \<open>Rounding to the nearest integer, ties to even.\<close>

definition rne :: "rat \<Rightarrow> int" where
  "rne m =
     (if m - of_int \<lfloor>m\<rfloor> < 1 / 2 then \<lfloor>m\<rfloor>
      else if 1 / 2 < m - of_int \<lfloor>m\<rfloor> then \<lfloor>m\<rfloor> + 1
      else if even \<lfloor>m\<rfloor> then \<lfloor>m\<rfloor> else \<lfloor>m\<rfloor> + 1)"

definition rnd :: "rat \<Rightarrow> rat" where
  "rnd x = (if x = 0 then 0 else sgn x * of_int (rne (\<bar>x\<bar> / quantum \<bar>x\<bar>)) * quantum \<bar>x\<bar>)"

definition to_double :: "rat \<Rightarrow> double" where
  "to_double x =
     (if 2 ^ 1024 \<le> rnd x then PlusInfinity
      else if rnd x \<le> - (2 ^ 1024) then MinusInfinity
      else Finite (rnd x))"

text \<open>The operators \<open>+\<close> and \<open>-\<close> on numbers.\<close>

fun fadd :: "double \<Rightarrow> double \<Rightarrow> double" where
  "fadd NaN _ = NaN"
| "fadd _ NaN = NaN"
| "fadd PlusInfinity MinusInfinity = NaN"
| "fadd MinusInfinity PlusInfinity = NaN"
| "fadd PlusInfinity _ = PlusInfinity"
| "fadd _ PlusInfinity = PlusInfinity"
| "fadd MinusInfinity _ = MinusInfinity"
| "fadd _ MinusInfinity = MinusInfinity"
| "fadd (Finite a) (Finite b) = to_double (a + b)"

fun fneg :: "double \<Rightarrow> double" where
  "fneg (Finite a) = Finite (- a)"
| "fneg PlusInfinity = MinusInfinity"
| "fneg MinusInfinity = PlusInfinity"
| "fneg NaN = NaN"

definition fsub :: "double \<Rightarrow> double \<Rightarrow> double" where
  "fsub a b = fadd a (fneg b)"

text \<open>A value that a number can hold: a finite one is its own rounding and below
  \<open>2^1024\<close> in magnitude.\<close>

fun representable :: "double \<Rightarrow> bool" where
  "representable (Finite r) = (rnd r = r \<and> \<bar>r\<bar> < 2 ^ 1024)"
| "representable PlusInfinity = True"
| "representable MinusInfinity = True"
| "representable NaN = True"

subsection \<open>The balance engine on doubles\<close>

text \<open>\<open>calculateSiteFinancials\<close> once more, with the amounts and the arithmetic of the
  source: the records carry doubles, \<open>+\<close> is \<open>fadd\<close> and \<open>-\<close> is \<open>fsub\<close>. The exact
  embedding above serves the properties that are the function's own computation; this
  one serves the property that rounding decides.\<close>

record Expense_f64 =
  amount_Expense_f64 :: double

record Advance_f64 =
  purpose_f64 :: AdvancePurpose
  amount_Advance_f64 :: double

record FundsReceived_f64 =
  amount_FundsReceived_f64 :: double

record Invoice_f64 =
  payment_by_f64 :: "string option"
  netAmount_f64 :: double

record BalanceSummary_f64 =
  fundsReceived_f64 :: double
  totalExpenditure_f64 :: double
  totalAdvances_f64 :: double
  debitsToWorker_f64 :: double
  invoicesPaid_f64 :: double
  pendingInvoices_f64 :: double
  totalBalance_f64 :: double

definition fallbackSummary_f64 :: BalanceSummary_f64 where
  "fallbackSummary_f64 =
     \<lparr>fundsReceived_f64 = Finite 0, totalExpenditure_f64 = Finite 0,
      totalAdvances_f64 = Finite 0, debitsToWorker_f64 = Finite 0,
      invoicesPaid_f64 = Finite 0, pendingInvoices_f64 = Finite 0,
      totalBalance_f64 = Finite 0\<rparr>"

definition calculateSiteFinancials_f64 ::
  "Site list \<Rightarrow> Expense_f64 list \<Rightarrow> Advance_f64 list \<Rightarrow> FundsReceived_f64 list \<Rightarrow>
   Invoice_f64 list \<Rightarrow> string option \<Rightarrow> BalanceSummary_f64" where
  "calculateSiteFinancials_f64 sites expenses advances funds invoices siteId =
     (if truthy_string siteId then
        (case find (\<lambda>s. Some (id_Site s) = siteId) sites of
           Some site \<Rightarrow>
             (let totalExpenses =
                    reduce (\<lambda>sum expense. fadd sum (amount_Expense_f64 expense)) (Finite 0) expenses;
                  totalFunds =
                    reduce (\<lambda>sum fund. fadd sum (amount_FundsReceived_f64 fund)) (Finite 0) funds;
                  totalAdvances' = reduce (\<lambda>sum advance.
                      if \<not> array_includes DEBIT_ADVANCE_PURPOSES (purpose_f64 advance)
                      then fadd sum (amount_Advance_f64 advance) else sum) (Finite 0) advances;
                  totalDebitToWorker = reduce (\<lambda>sum advance.
                      if array_includes DEBIT_ADVANCE_PURPOSES (purpose_f64 advance)
                      then fadd sum (amount_Advance_f64 advance) else sum) (Finite 0) advances;
                  supervisorInvoiceTotal =
                    reduce (\<lambda>sum invoice. fadd sum (netAmount_f64 invoice)) (Finite 0)
                      (filter (\<lambda>invoice. payment_by_f64 invoice = Some ''supervisor'') invoices);
                  totalBalance' =
                    fsub (fsub (fsub totalFunds totalExpenses) totalAdvances') supervisorInvoiceTotal
              in \<lparr>fundsReceived_f64 = totalFunds,
                  totalExpenditure_f64 = totalExpenses,
                  totalAdvances_f64 = totalAdvances',
                  debitsToWorker_f64 = totalDebitToWorker,
                  invoicesPaid_f64 = supervisorInvoiceTotal,
                  pendingInvoices_f64 = Finite 0,
                  totalBalance_f64 = totalBalance'\<rparr>)
         | None \<Rightarrow> fallbackSummary_f64)
      else fallbackSummary_f64)"

subsection \<open>The increment_funds endpoint\<close>

text \<open>The handler works on untyped JSON: \<open>req.json()\<close> gives any JSON value, and so do the
  rows the backend returns. \<open>JObject\<close> lists an object's own properties (each name once),
  in insertion order.\<close>

datatype json =
  JNull | JBool bool | JNumber double | JString string
| JArray "json list" | JObject "(string \<times> json) list"

datatype exception = TypeError

text \<open>Reading one of the properties the handler reads (\<open>site_id\<close>, \<open>amount\<close>, \<open>funds\<close>)
  from a JSON value: \<open>null\<close> has no properties and the access throws; an object gives its
  own property or \<open>undefined\<close> (\<open>None\<close>); a boolean, number, string or array has none of
  the three names.\<close>

fun get_property :: "json \<Rightarrow> string \<Rightarrow> exception + json option" where
  "get_property JNull key = Inl TypeError"
| "get_property (JObject kvs) key = Inr (map_of kvs key)"
| "get_property _ key = Inr None"

text \<open>Truthiness of a value that is \<open>undefined\<close> (\<open>None\<close>) or JSON.\<close>

fun truthy_json :: "json option \<Rightarrow> bool" where
  "truthy_json None = False"
| "truthy_json (Some JNull) = False"
| "truthy_json (Some (JBool b)) = b"
| "truthy_json (Some (JNumber d)) = (d \<noteq> Finite 0 \<and> d \<noteq> NaN)"
| "truthy_json (Some (JString s)) = (s \<noteq> [])"
| "truthy_json (Some (JArray xs)) = True"
| "truthy_json (Some (JObject kvs)) = True"

text \<open>\<open>Number.prototype.toString\<close>: an integer below \<open>2^53\<close> in magnitude prints its
  decimal digits; for the other finite values the result (the shortest digit string that
  reads back as the same double, in plain or exponent notation) is the runtime's, a
  parameter here.\<close>

fun digits :: "nat \<Rightarrow> string" where
  "digits n = (if n < 10 then [''0123456789'' ! n]
               else digits (n div 10) @ [''0123456789'' ! (n mod 10)])"

fun number_toString :: "(rat \<Rightarrow> string) \<Rightarrow> double \<Rightarrow> string" where
  "number_toString shortest NaN = ''NaN''"
| "number_toString shortest PlusInfinity = ''Infinity''"
| "number_toString shortest MinusInfinity = ''-Infinity''"
| "number_toString shortest (Finite r) =
     (if of_int \<lfloor>r\<rfloor> = r \<and> \<bar>r\<bar> < 2 ^ 53
      then (if r < 0 then ''-'' else []) @ digits (nat \<bar>\<lfloor>r\<rfloor>\<bar>)
      else shortest r)"

text \<open>\<open>ToString\<close> of a JSON value. An array joins its elements with commas, \<open>null\<close>
  elements as empty strings. An object has no callable method of its own, so the
  conversion finds \<open>Object.prototype.toString\<close> and gives \<open>[object Object]\<close>, unless the
  object has an own property named \<open>toString\<close>, which hides it: then no conversion is
  left and a \<open>TypeError\<close> is thrown.\<close>

fun js_toString :: "(rat \<Rightarrow> string) \<Rightarrow> json \<Rightarrow> exception + string"
  and join :: "(rat \<Rightarrow> string) \<Rightarrow> json list \<Rightarrow> exception + string" where
  "js_toString shortest JNull = Inr ''null''"
| "js_toString shortest (JBool b) = Inr (if b then ''true'' else ''false'')"
| "js_toString shortest (JNumber d) = Inr (number_toString shortest d)"
| "js_toString shortest (JString s) = Inr s"
| "js_toString shortest (JArray xs) = join shortest xs"
| "js_toString shortest (JObject kvs) =
     (if map_of kvs ''toString'' = None then Inr ''[object Object]'' else Inl TypeError)"
| "join shortest [] = Inr []"
| "join shortest (x # xs) =
     (case (if x = JNull then Inr [] else js_toString shortest x) of
        Inl e \<Rightarrow> Inl e
      | Inr s \<Rightarrow>
          (if xs = [] then Inr s
           else (case join shortest xs of Inl e \<Rightarrow> Inl e | Inr t \<Rightarrow> Inr (s @ '','' @ t))))"

text \<open>\<open>ToPrimitive\<close>: an array or object is replaced by its string.\<close>

fun to_primitive :: "(rat \<Rightarrow> string) \<Rightarrow> json \<Rightarrow> exception + json" where
  "to_primitive shortest (JArray xs) = map_sum id JString (js_toString shortest (JArray xs))"
| "to_primitive shortest (JObject kvs) = map_sum id JString (js_toString shortest (JObject kvs))"
| "to_primitive shortest v = Inr v"

text \<open>The number of a primitive that is not a string: \<open>null\<close> is 0, \<open>true\<close> is 1 and
  \<open>false\<close> is 0. A string has none here (\<open>None\<close>): the operator \<open>+\<close> concatenates
  instead of converting it.\<close>

fun number_of :: "json \<Rightarrow> double option" where
  "number_of (JNumber d) = Some d"
| "number_of (JBool b) = Some (if b then Finite 1 else Finite 0)"
| "number_of JNull = Some (Finite 0)"
| "number_of _ = None"

text \<open>The operator \<open>+\<close>: both operands are made primitive, left first; if either is then
  a string the result is the concatenation of their strings, otherwise the sum of their
  numbers.\<close>

definition js_plus :: "(rat \<Rightarrow> string) \<Rightarrow> json \<Rightarrow> json \<Rightarrow> exception + json" where
  "js_plus shortest a b =
     (case to_primitive shortest a of
        Inl e \<Rightarrow> Inl e
      | Inr pa \<Rightarrow>
          (case to_primitive shortest b of
             Inl e \<Rightarrow> Inl e
           | Inr pb \<Rightarrow>
               (case (number_of pa, number_of pb) of
                  (Some x, Some y) \<Rightarrow> Inr (JNumber (fadd x y))
                | _ \<Rightarrow>
                    (case (js_toString shortest pa, js_toString shortest pb) of
                       (Inr sa, Inr sb) \<Rightarrow> Inr (JString (sa @ sb))
                     | _ \<Rightarrow> Inl TypeError))))"

text \<open>The request carries its method (\<open>method_req\<close>, for \<open>req.method\<close>) and its body:
  \<open>None\<close> when \<open>req.json()\<close> rejects (the body is not JSON), otherwise the JSON value.

  The backend client is a parameter: \<open>select_funds\<close> is the query
  \<open>from('sites').select('funds').eq('id', site_id).single()\<close>, returning the error's
  message or the row (\<open>siteData\<close>), and \<open>update_funds\<close> is
  \<open>from('sites').update({funds}).eq('id', site_id).select()\<close>, returning the error's
  message or the updated rows. The client is taken as constructed, and its calls as
  returning a result or an error object, as the library does. The response body is the
  content of the JSON text that \<open>JSON.stringify\<close> writes.\<close>

record HttpRequest =
  method_req :: string
  json_body :: "json option"

record 'd supabaseClient =
  select_funds :: "json \<Rightarrow> string + json"
  update_funds :: "json \<Rightarrow> json \<Rightarrow> string + 'd"

record 'd SuccessBody =
  success :: bool
  data :: 'd
  previous_funds :: json
  new_funds :: json

datatype 'd payload = NoBody | ErrorBody string | Success "'d SuccessBody"

record 'd HttpResponse =
  status :: nat
  headers :: "(string \<times> string) list"
  payload :: "'d payload"

definition corsHeaders :: "(string \<times> string) list" where
  "corsHeaders =
     [(''Access-Control-Allow-Origin'', ''*''),
      (''Access-Control-Allow-Headers'', ''authorization, x-client-info, apikey, content-type'')]"

definition jsonHeaders :: "(string \<times> string) list" where
  "jsonHeaders = corsHeaders @ [(''Content-Type'', ''application/json'')]"

text \<open>What \<open>JSON.stringify\<close> sends for a value: JSON has no infinities and no NaN, and
  the serializer writes \<open>null\<close> for them; everything else is sent as it is.\<close>

fun stringified :: "json \<Rightarrow> json" where
  "stringified (JNumber (Finite r)) = JNumber (Finite r)"
| "stringified (JNumber d) = JNull"
| "stringified (JArray xs) = JArray (map stringified xs)"
| "stringified (JObject kvs) = JObject (map (\<lambda>kv. (fst kv, stringified (snd kv))) kvs)"
| "stringified v = v"

text \<open>The response of the \<open>catch\<close> block, which every exception thrown inside \<open>try\<close>
  ends in.\<close>

definition unexpected :: "'d HttpResponse" where
  "unexpected = \<lparr>status = 500, headers = jsonHeaders,
     payload = ErrorBody ''Unexpected error occurred''\<rparr>"

text \<open>\<open>siteData.funds || 0\<close>.\<close>

definition or_zero :: "json option \<Rightarrow> json" where
  "or_zero v = (case v of Some f \<Rightarrow> if truthy_json v then f else JNumber (Finite 0)
                | None \<Rightarrow> JNumber (Finite 0))"

definition serve_handler ::
  "(rat \<Rightarrow> string) \<Rightarrow> 'd supabaseClient \<Rightarrow> HttpRequest \<Rightarrow> 'd HttpResponse" where
  "serve_handler shortest supabaseClient req =
     (if method_req req = ''OPTIONS''
      then \<lparr>status = 200, headers = corsHeaders, payload = NoBody\<rparr>
      else
        (case json_body req of
           None \<Rightarrow> unexpected
         | Some body \<Rightarrow>
             (case (get_property body ''site_id'', get_property body ''amount'') of
                (Inr site_id, Inr amount) \<Rightarrow>
                  if \<not> truthy_json site_id \<or> amount = None
                  then \<lparr>status = 400, headers = jsonHeaders,
                        payload = ErrorBody ''Site ID and amount are required''\<rparr>
                  else
                    (case select_funds supabaseClient (the site_id) of
                       Inl message \<Rightarrow>
                         \<lparr>status = 500, headers = jsonHeaders,
                          payload = ErrorBody (''Error fetching site: '' @ message)\<rparr>
                     | Inr siteData \<Rightarrow>
                         (case get_property siteData ''funds'' of
                            Inl e \<Rightarrow> unexpected
                          | Inr funds \<Rightarrow>
                              (case js_plus shortest (or_zero funds) (the amount) of
                                 Inl e \<Rightarrow> unexpected
                               | Inr newFunds \<Rightarrow>
                                   (case update_funds supabaseClient (the site_id) newFunds of
                                      Inl message \<Rightarrow>
                                        \<lparr>status = 500, headers = jsonHeaders,
                                         payload = ErrorBody
                                           (''Error updating site funds: '' @ message)\<rparr>
                                    | Inr d \<Rightarrow>
                                        \<lparr>status = 200, headers = jsonHeaders,
                                         payload = Success \<lparr>success = True, data = d,
                                           previous_funds = stringified (or_zero funds),
                                           new_funds = stringified newFunds\<rparr>\<rparr>))))
              | _ \<Rightarrow> unexpected)))"

section \<open>Properties of the balance engine\<close>

subsection \<open>Sums computed by the reducers\<close>

lemma reduce_add_shift:
  fixes f :: "'a \<Rightarrow> number"
  shows "reduce (\<lambda>sum x. sum + f x) a xs = a + sum_list (map f xs)"
  unfolding reduce_def by (induction xs arbitrary: a) (simp_all add: add.assoc)

lemma reduce_add_sum:
  fixes f :: "'a \<Rightarrow> number"
  shows "reduce (\<lambda>sum x. sum + f x) 0 xs = sum_list (map f xs)"
  by (simp add: reduce_add_shift)

lemma reduce_guarded_shift:
  fixes f :: "'a \<Rightarrow> number"
  shows "reduce (\<lambda>sum x. if P x then sum + f x else sum) a xs
       = a + sum_list (map f (filter P xs))"
  unfolding reduce_def by (induction xs arbitrary: a) (simp_all add: add.assoc)

lemma reduce_guarded_sum:
  fixes f :: "'a \<Rightarrow> number"
  shows "reduce (\<lambda>sum x. if P x then sum + f x else sum) 0 xs = sum_list (map f (filter P xs))"
  by (simp add: reduce_guarded_shift)

lemma find_site_id:
  "sid \<in> id_Site ` set sites \<Longrightarrow> \<exists>site. find (\<lambda>s. Some (id_Site s) = Some sid) sites = Some site"
  by (cases "find (\<lambda>s. Some (id_Site s) = Some sid) sites") (auto simp: find_None_iff)

lemma find_site_missing:
  "siteId \<notin> Some ` id_Site ` set sites \<Longrightarrow> find (\<lambda>s. Some (id_Site s) = siteId) sites = None"
  by (auto simp: find_None_iff)

lemma array_includes_DEBIT:
  "array_includes DEBIT_ADVANCE_PURPOSES p \<longleftrightarrow> p \<in> {SAFETY_SHOES, TOOLS, OTHER}"
  by (auto simp: array_includes_def DEBIT_ADVANCE_PURPOSES_def)

lemma calculateSiteFinancials_found:
  assumes "sid \<noteq> []" and "sid \<in> id_Site ` set sites"
  shows "calculateSiteFinancials sites expenses advances funds invoices (Some sid) =
     \<lparr>fundsReceived = sum_list (map amount_FundsReceived funds),
      totalExpenditure = sum_list (map amount_Expense expenses),
      totalAdvances = sum_list (map amount_Advance
         (filter (\<lambda>a. purpose a \<notin> {SAFETY_SHOES, TOOLS, OTHER}) advances)),
      debitsToWorker = sum_list (map amount_Advance
         (filter (\<lambda>a. purpose a \<in> {SAFETY_SHOES, TOOLS, OTHER}) advances)),
      invoicesPaid = sum_list (map netAmount
         (filter (\<lambda>i. payment_by i = Some ''supervisor'') invoices)),
      pendingInvoices = 0,
      totalBalance = sum_list (map amount_FundsReceived funds)
         - sum_list (map amount_Expense expenses)
         - sum_list (map amount_Advance
             (filter (\<lambda>a. purpose a \<notin> {SAFETY_SHOES, TOOLS, OTHER}) advances))
         - sum_list (map netAmount
             (filter (\<lambda>i. payment_by i = Some ''supervisor'') invoices))\<rparr>"
proof -
  obtain site where "find (\<lambda>s. Some (id_Site s) = Some sid) sites = Some site"
    using find_site_id [OF assms(2)] by blast
  then show ?thesis
    using assms(1)
    by (simp add: calculateSiteFinancials_def truthy_string_def Let_def
        reduce_add_sum reduce_guarded_sum array_includes_DEBIT)
qed

lemma calculateSiteFinancials_fallback:
  assumes "siteId = None \<or> siteId = Some [] \<or> siteId \<notin> Some ` id_Site ` set sites"
  shows "calculateSiteFinancials sites expenses advances funds invoices siteId = fallbackSummary"
  using assms find_site_missing [of siteId sites]
  by (auto simp: calculateSiteFinancials_def truthy_string_def split: option.splits)

lemma site_cases:
  obtains (found) sid where "siteId = Some sid" "sid \<noteq> []" "sid \<in> id_Site ` set sites"
  | (fallback) "siteId = None \<or> siteId = Some [] \<or> siteId \<notin> Some ` id_Site ` set sites"
  by (cases siteId) auto

subsection \<open>The balance formula\<close>

text \<open>C1. The summary returned by \<open>calculateSiteFinancials\<close> satisfies
  totalBalance = fundsReceived - totalExpenditure - totalAdvances - invoicesPaid, and
  debitsToWorker is not subtracted: the balance is the same when every advance with a
  debit purpose is removed from the input. Both hold for every input, in particular when
  the target site is found in the site list.\<close>

theorem calculateSiteFinancials_totalBalance:
  "(let r = calculateSiteFinancials sites expenses advances funds invoices siteId in
      totalBalance r = fundsReceived r - totalExpenditure r - totalAdvances r - invoicesPaid r)
   \<and> totalBalance (calculateSiteFinancials sites expenses advances funds invoices siteId)
     = totalBalance (calculateSiteFinancials sites expenses
         (filter (\<lambda>a. purpose a \<notin> {SAFETY_SHOES, TOOLS, OTHER}) advances) funds invoices siteId)"
proof (cases siteId sites rule: site_cases)
  case (found sid)
  show ?thesis
    unfolding found(1) calculateSiteFinancials_found [OF found(2,3)]
    by simp
next
  case fallback
  then show ?thesis
    by (simp add: calculateSiteFinancials_fallback fallbackSummary_def)
qed

subsection \<open>Invoices paid by the supervisor\<close>

text \<open>C2. For a target site found in the site list, invoicesPaid is the sum of netAmount
  over exactly the invoices whose \<open>payment_by\<close> is "supervisor"; invoices paid by head
  office ("ho") contribute nothing: removing them changes neither invoicesPaid nor
  totalBalance.\<close>

theorem calculateSiteFinancials_invoicesPaid:
  assumes "sid \<noteq> []" and "sid \<in> id_Site ` set sites"
  shows "invoicesPaid (calculateSiteFinancials sites expenses advances funds invoices (Some sid))
       = sum_list (map netAmount (filter (\<lambda>i. payment_by i = Some ''supervisor'') invoices))
     \<and> invoicesPaid (calculateSiteFinancials sites expenses advances funds
          (filter (\<lambda>i. payment_by i \<noteq> Some ''ho'') invoices) (Some sid))
       = invoicesPaid (calculateSiteFinancials sites expenses advances funds invoices (Some sid))
     \<and> totalBalance (calculateSiteFinancials sites expenses advances funds
          (filter (\<lambda>i. payment_by i \<noteq> Some ''ho'') invoices) (Some sid))
       = totalBalance (calculateSiteFinancials sites expenses advances funds invoices (Some sid))"
proof -
  have "filter (\<lambda>i. payment_by i = Some ''supervisor'')
               (filter (\<lambda>i. payment_by i \<noteq> Some ''ho'') invoices)
           = filter (\<lambda>i. payment_by i = Some ''supervisor'') invoices"
    by (induction invoices) auto
  then show ?thesis
    by (simp add: calculateSiteFinancials_found [OF assms] del: filter_filter)
qed

theorem calculateSiteFinancials_invoicesPaid_witness:
  "invoicesPaid (calculateSiteFinancials [\<lparr>id_Site = ''s1''\<rparr>] [] [] [\<lparr>amount_FundsReceived = 5000\<rparr>]
      [\<lparr>payment_by = Some ''supervisor'', netAmount = 1500\<rparr>,
       \<lparr>payment_by = Some ''ho'', netAmount = 700\<rparr>,
       \<lparr>payment_by = None, netAmount = 40\<rparr>] (Some ''s1'')) = 1500
   \<and> totalBalance (calculateSiteFinancials [\<lparr>id_Site = ''s1''\<rparr>] [] [] [\<lparr>amount_FundsReceived = 5000\<rparr>]
      [\<lparr>payment_by = Some ''supervisor'', netAmount = 1500\<rparr>,
       \<lparr>payment_by = None, netAmount = 40\<rparr>] (Some ''s1''))
     = totalBalance (calculateSiteFinancials [\<lparr>id_Site = ''s1''\<rparr>] [] [] [\<lparr>amount_FundsReceived = 5000\<rparr>]
      [\<lparr>payment_by = Some ''supervisor'', netAmount = 1500\<rparr>,
       \<lparr>payment_by = Some ''ho'', netAmount = 700\<rparr>,
       \<lparr>payment_by = None, netAmount = 40\<rparr>] (Some ''s1''))"
  using calculateSiteFinancials_invoicesPaid [of "''s1''" "[\<lparr>id_Site = ''s1''\<rparr>]" "[]" "[]"
      "[\<lparr>amount_FundsReceived = 5000\<rparr>]"
      "[\<lparr>payment_by = Some ''supervisor'', netAmount = 1500\<rparr>,
        \<lparr>payment_by = Some ''ho'', netAmount = 700\<rparr>,
        \<lparr>payment_by = None, netAmount = 40\<rparr>]"]
  by simp

subsection \<open>The fallback summary\<close>

text \<open>C5. For a siteId that is absent, empty or not the id of a site in the list, the
  engine returns the summary whose seven fields are 0, whatever the expenses, advances,
  funds received and invoices are. The function has no failing branch.\<close>

theorem calculateSiteFinancials_unknown_site:
  assumes "siteId = None \<or> siteId = Some [] \<or> siteId \<notin> Some ` id_Site ` set sites"
  shows "calculateSiteFinancials sites expenses advances funds invoices siteId =
     \<lparr>fundsReceived = 0, totalExpenditure = 0, totalAdvances = 0, debitsToWorker = 0,
      invoicesPaid = 0, pendingInvoices = 0, totalBalance = 0\<rparr>"
  using calculateSiteFinancials_fallback [OF assms] by (simp add: fallbackSummary_def)

theorem calculateSiteFinancials_unknown_site_witness:
  "Some ''s9'' \<notin> Some ` id_Site ` set [\<lparr>id_Site = ''s1''\<rparr>, \<lparr>id_Site = ''s2''\<rparr>]
   \<and> calculateSiteFinancials [\<lparr>id_Site = ''s1''\<rparr>, \<lparr>id_Site = ''s2''\<rparr>]
       [\<lparr>amount_Expense = 2000\<rparr>] [\<lparr>purpose = TOOLS, amount_Advance = 300\<rparr>]
       [\<lparr>amount_FundsReceived = 10000\<rparr>] [\<lparr>payment_by = Some ''supervisor'', netAmount = 1500\<rparr>]
       (Some ''s9'') =
     \<lparr>fundsReceived = 0, totalExpenditure = 0, totalAdvances = 0, debitsToWorker = 0,
      invoicesPaid = 0, pendingInvoices = 0, totalBalance = 0\<rparr>
   \<and> calculateSiteFinancials [\<lparr>id_Site = ''s1''\<rparr>] [\<lparr>amount_Expense = 2000\<rparr>] []
       [\<lparr>amount_FundsReceived = 10000\<rparr>] [] None =
     \<lparr>fundsReceived = 0, totalExpenditure = 0, totalAdvances = 0, debitsToWorker = 0,
      invoicesPaid = 0, pendingInvoices = 0, totalBalance = 0\<rparr>
   \<and> calculateSiteFinancials [\<lparr>id_Site = ''s1''\<rparr>] [\<lparr>amount_Expense = 2000\<rparr>] []
       [\<lparr>amount_FundsReceived = 10000\<rparr>] [] (Some []) =
     \<lparr>fundsReceived = 0, totalExpenditure = 0, totalAdvances = 0, debitsToWorker = 0,
      invoicesPaid = 0, pendingInvoices = 0, totalBalance = 0\<rparr>"
proof -
  have h: "Some ''s9'' \<notin> Some ` id_Site ` set [\<lparr>id_Site = ''s1''\<rparr>, \<lparr>id_Site = ''s2''\<rparr>]"
    by simp
  show ?thesis
    using h calculateSiteFinancials_unknown_site [OF disjI2 [OF disjI2 [OF h]]]
      calculateSiteFinancials_unknown_site [OF disjI1 [OF refl]]
      calculateSiteFinancials_unknown_site [OF disjI2 [OF disjI1 [OF refl]]]
    by (intro conjI)
qed

subsection \<open>Purposes outside the debit list\<close>



subsection \<open>The worked scenario\<close>

text \<open>C4. With the target site in the site list, funds received [10000], expenses
  [2000, 500], advances [1000 for ADVANCE, 300 for TOOLS] and one invoice of 1500 paid by
  the supervisor, the engine returns fundsReceived 10000, totalExpenditure 2500,
  totalAdvances 1000, debitsToWorker 300, invoicesPaid 1500 and totalBalance 5000.\<close>

theorem calculateSiteFinancials_scenario:
  "calculateSiteFinancials
     [\<lparr>id_Site = ''site-1''\<rparr>]
     [\<lparr>amount_Expense = 2000\<rparr>, \<lparr>amount_Expense = 500\<rparr>]
     [\<lparr>purpose = ADVANCE, amount_Advance = 1000\<rparr>, \<lparr>purpose = TOOLS, amount_Advance = 300\<rparr>]
     [\<lparr>amount_FundsReceived = 10000\<rparr>]
     [\<lparr>payment_by = Some ''supervisor'', netAmount = 1500\<rparr>]
     (Some ''site-1'')
   = \<lparr>fundsReceived = 10000, totalExpenditure = 2500, totalAdvances = 1000,
      debitsToWorker = 300, invoicesPaid = 1500, pendingInvoices = 0, totalBalance = 5000\<rparr>"
  by (simp add: calculateSiteFinancials_def truthy_string_def reduce_def array_includes_def
      DEBIT_ADVANCE_PURPOSES_def)

section \<open>Properties of the role gate\<close>

text \<open>C8. With no user on the request the middleware responds 401 and does not call
  \<open>next\<close>; with a user whose role is not among the allowed roles it responds 403 and does
  not call \<open>next\<close>; otherwise it calls \<open>next\<close> once and leaves the response untouched.\<close>

theorem checkRole_gate:
  "(user req = None \<longrightarrow>
      statusCode (res (checkRole allowedRoles req x)) = 401
    \<and> sent (res (checkRole allowedRoles req x)) = Some [(''error'', ''Unauthorized'')]
    \<and> next_calls (checkRole allowedRoles req x) = next_calls x)
 \<and> (\<forall>u. user req = Some u \<and> role u \<notin> set allowedRoles \<longrightarrow>
      statusCode (res (checkRole allowedRoles req x)) = 403
    \<and> sent (res (checkRole allowedRoles req x)) = Some [(''error'', ''Forbidden'')]
    \<and> next_calls (checkRole allowedRoles req x) = next_calls x)
 \<and> (\<forall>u. user req = Some u \<and> role u \<in> set allowedRoles \<longrightarrow>
      next_calls (checkRole allowedRoles req x) = Suc (next_calls x)
    \<and> res (checkRole allowedRoles req x) = res x)"
proof (cases "user req")
  case None
  then show ?thesis
    by (simp add: checkRole_def res_status_def res_json_def)
next
  case (Some u)
  show ?thesis
  proof (cases "role u \<in> set allowedRoles")
    case True
    with Some show ?thesis
      by (simp add: checkRole_def array_includes_def)
  next
    case False
    with Some show ?thesis
      by (simp add: checkRole_def array_includes_def res_status_def res_json_def)
  qed
qed

theorem checkRole_gate_witness:
  "statusCode (res (checkRole [''admin''] \<lparr>user = None\<rparr> fresh)) = 401
   \<and> next_calls (checkRole [''admin''] \<lparr>user = None\<rparr> fresh) = 0
   \<and> statusCode (res (checkRole [''admin''] \<lparr>user = Some \<lparr>role = ''viewer''\<rparr>\<rparr> fresh)) = 403
   \<and> next_calls (checkRole [''admin''] \<lparr>user = Some \<lparr>role = ''viewer''\<rparr>\<rparr> fresh) = 0
   \<and> next_calls (checkRole [''admin''] \<lparr>user = Some \<lparr>role = ''admin''\<rparr>\<rparr> fresh) = 1
   \<and> sent (res (checkRole [''admin''] \<lparr>user = Some \<lparr>role = ''admin''\<rparr>\<rparr> fresh)) = None"
  using checkRole_gate [of "\<lparr>user = None\<rparr>" "[''admin'']" fresh]
        checkRole_gate [of "\<lparr>user = Some \<lparr>role = ''viewer''\<rparr>\<rparr>" "[''admin'']" fresh]
        checkRole_gate [of "\<lparr>user = Some \<lparr>role = ''admin''\<rparr>\<rparr>" "[''admin'']" fresh]
  by (simp add: fresh_def)

section \<open>Properties of the invoice mapping\<close>

lemma mapInvoice_approverType:
  assumes "mapInvoice Number NewDate JSON_parse invoice = Inr v"
  shows "property_of v ''approverType'' = Some (Raw (js_or (invoice ''approver_type'') (Text ''ho'')))"
  using assms
  by (auto simp: mapInvoice_def property_of_def split: option.splits if_splits)

lemma mapInvoice_returns:
  "(\<exists>v. mapInvoice Number NewDate JSON_parse invoice = Inr v) \<longleftrightarrow>
     (truthy (invoice ''material_items'') \<longrightarrow> JSON_parse (invoice ''material_items'') \<noteq> None)
   \<and> (truthy (invoice ''bank_details'') \<longrightarrow> JSON_parse (invoice ''bank_details'') \<noteq> None)"
  by (auto simp: mapInvoice_def split: option.splits)

lemma mapInvoices_Inr:
  "mapInvoices Number NewDate JSON_parse rows = Inr out \<Longrightarrow>
     length out = length rows \<and>
     (\<forall>i < length rows. mapInvoice Number NewDate JSON_parse (rows ! i) = Inr (out ! i))"
proof (induction rows arbitrary: out)
  case Nil
  then show ?case by simp
next
  case (Cons r rows)
  from Cons.prems obtain v vs where v: "mapInvoice Number NewDate JSON_parse r = Inr v"
    and vs: "mapInvoices Number NewDate JSON_parse rows = Inr vs" and out: "out = v # vs"
    by (auto split: sum.splits)
  from Cons.IH [OF vs] have ih: "length vs = length rows"
    "\<forall>i < length rows. mapInvoice Number NewDate JSON_parse (rows ! i) = Inr (vs ! i)"
    by simp_all
  show ?case
  proof (intro conjI allI impI)
    show "length out = length (r # rows)" using ih(1) out by simp
  next
    fix i assume "i < length (r # rows)"
    then show "mapInvoice Number NewDate JSON_parse ((r # rows) ! i) = Inr (out ! i)"
      using v ih(2) out by (cases i) simp_all
  qed
qed

lemma mapInvoices_returns:
  assumes "\<forall>r \<in> set rows.
      (truthy (r ''material_items'') \<longrightarrow> JSON_parse (r ''material_items'') \<noteq> None)
    \<and> (truthy (r ''bank_details'') \<longrightarrow> JSON_parse (r ''bank_details'') \<noteq> None)"
  shows "\<exists>out. mapInvoices Number NewDate JSON_parse rows = Inr out"
  using assms
proof (induction rows)
  case Nil
  then show ?case by simp
next
  case (Cons r rows)
  from Cons.prems have "\<exists>v. mapInvoice Number NewDate JSON_parse r = Inr v"
    by (simp add: mapInvoice_returns)
  moreover from Cons have "\<exists>out. mapInvoices Number NewDate JSON_parse rows = Inr out"
    by simp
  ultimately show ?case by auto
qed

lemma js_or_absent:
  "c \<in> {Undefined, Null} \<Longrightarrow> js_or c d = d"
  by (auto simp: js_or_def)

text \<open>C9. Whenever \<open>mapInvoices\<close> returns, it returns one mapped invoice per row, and the
  mapped invoice of a row whose \<open>approver_type\<close> is null or absent has approverType "ho".
  It returns whenever the JSON columns of every row are empty or parse.\<close>

theorem mapInvoices_approverType_default:
  "(mapInvoices Number NewDate JSON_parse rows = Inr out \<longrightarrow>
      length out = length rows
    \<and> (\<forall>i < length rows. (rows ! i) ''approver_type'' \<in> {Undefined, Null} \<longrightarrow>
          property_of (out ! i) ''approverType'' = Some (Raw (Text ''ho''))))
 \<and> ((\<forall>r \<in> set rows.
        (truthy (r ''material_items'') \<longrightarrow> JSON_parse (r ''material_items'') \<noteq> None)
      \<and> (truthy (r ''bank_details'') \<longrightarrow> JSON_parse (r ''bank_details'') \<noteq> None))
    \<longrightarrow> (\<exists>out'. mapInvoices Number NewDate JSON_parse rows = Inr out'))"
proof (intro conjI impI allI)
  assume "mapInvoices Number NewDate JSON_parse rows = Inr out"
  then show "length out = length rows" by (simp add: mapInvoices_Inr)
next
  fix i
  assume m: "mapInvoices Number NewDate JSON_parse rows = Inr out"
    and i: "i < length rows" and a: "(rows ! i) ''approver_type'' \<in> {Undefined, Null}"
  from mapInvoices_Inr [OF m] i
  have "mapInvoice Number NewDate JSON_parse (rows ! i) = Inr (out ! i)" by simp
  from mapInvoice_approverType [OF this] js_or_absent [OF a]
  show "property_of (out ! i) ''approverType'' = Some (Raw (Text ''ho''))" by simp
next
  assume "\<forall>r \<in> set rows.
        (truthy (r ''material_items'') \<longrightarrow> JSON_parse (r ''material_items'') \<noteq> None)
      \<and> (truthy (r ''bank_details'') \<longrightarrow> JSON_parse (r ''bank_details'') \<noteq> None)"
  then show "\<exists>out'. mapInvoices Number NewDate JSON_parse rows = Inr out'"
    by (rule mapInvoices_returns)
qed

theorem mapInvoices_approverType_default_witness:
  "\<exists>out. mapInvoices (\<lambda>c. c) (\<lambda>c. c) Some
       [\<lambda>k. if k = ''approver_type'' then Null else if k = ''net_amount'' then Numeric 1500 else Undefined,
        \<lambda>k. if k = ''approver_type'' then Text ''supervisor'' else Undefined] = Inr out
     \<and> length out = 2
     \<and> property_of (out ! 0) ''approverType'' = Some (Raw (Text ''ho''))"
proof -
  let ?rows = "[\<lambda>k. if k = ''approver_type'' then Null else if k = ''net_amount'' then Numeric 1500 else Undefined,
        \<lambda>k. if k = ''approver_type'' then Text ''supervisor'' else Undefined] :: (string \<Rightarrow> column) list"
  note T = mapInvoices_approverType_default [where rows = "?rows" and Number = "\<lambda>c. c"
      and NewDate = "\<lambda>c. c" and JSON_parse = Some]
  have parses: "\<forall>r \<in> set ?rows.
        (truthy (r ''material_items'') \<longrightarrow> Some (r ''material_items'') \<noteq> None)
      \<and> (truthy (r ''bank_details'') \<longrightarrow> Some (r ''bank_details'') \<noteq> None)"
    by simp
  have "\<exists>out'. mapInvoices (\<lambda>c. c) (\<lambda>c. c) Some ?rows = Inr out'"
    using T [THEN conjunct2] parses by (rule mp)
  then obtain out where out: "mapInvoices (\<lambda>c. c) (\<lambda>c. c) Some ?rows = Inr out" ..
  note R = T [of out, THEN conjunct1, THEN mp, OF out]
  from R have len: "length out = length ?rows" by (rule conjunct1)
  from R have dflt: "\<forall>i < length ?rows. (?rows ! i) ''approver_type'' \<in> {Undefined, Null} \<longrightarrow>
          property_of (out ! i) ''approverType'' = Some (Raw (Text ''ho''))"
    by (rule conjunct2)
  from dflt have "property_of (out ! 0) ''approverType'' = Some (Raw (Text ''ho''))"
    by simp
  with out len show ?thesis by simp
qed

section \<open>Properties of the doubles\<close>

text \<open>Evaluating the rounding on numerals, and the exactness of whole numbers below
  \<open>2^53\<close>.\<close>

lemma floor_rat_quotient:
  "\<lfloor>numeral a / numeral b :: rat\<rfloor> = numeral a div numeral b"
  "\<lfloor>1 / numeral b :: rat\<rfloor> = 1 div numeral b"
  using floor_divide_of_int_eq [of "numeral a" "numeral b", where ?'a = rat]
    floor_divide_of_int_eq [of 1 "numeral b", where ?'a = rat]
  by simp_all

lemmas double_eval = rnd_def quantum_def exponent_def pow2_def rne_def to_double_def
  compute_bitlen floor_rat_quotient

lemma rne_of_int: "rne (of_int k) = k"
  by (simp add: rne_def)

lemma exponent_of_nat:
  assumes "0 < n"
  shows "exponent (of_nat n) = bitlen (int n) - 1"
proof -
  have "(1::rat) \<le> of_nat n" using assms by simp
  moreover have "\<lfloor>of_nat n :: rat\<rfloor> = int n" by simp
  ultimately show ?thesis by (simp add: exponent_def)
qed

lemma rnd_of_nat:
  assumes "n < 2 ^ 53"
  shows "rnd (of_nat n) = of_nat n"
proof (cases "n = 0")
  case True
  then show ?thesis by (simp add: rnd_def)
next
  case False
  then have pos: "0 < n" by simp
  define e where "e = bitlen (int n) - 1"
  have "int n < 2 ^ 53" using assms by (metis of_nat_less_iff of_nat_numeral of_nat_power)
  then have "bitlen (int n) \<le> 53" by (simp add: bitlen_le_iff_power)
  moreover have "0 < bitlen (int n)"
    using pos bitlen_nonneg [of "int n"] bitlen_eq_zero_iff [of "int n"] by linarith
  ultimately have e: "0 \<le> e" "e \<le> 52" by (simp_all add: e_def)
  define k where "k = nat (52 - e)"
  have q: "quantum (of_nat n) = 1 / 2 ^ k"
  proof (cases "e = 52")
    case True
    then show ?thesis
      using pos by (simp add: quantum_def exponent_of_nat e_def [symmetric] pow2_def k_def)
  next
    case False
    with e have "e - 52 < 0" by simp
    then show ?thesis
      using pos e
      by (simp add: quantum_def exponent_of_nat e_def [symmetric] pow2_def k_def max_def)
  qed
  have "\<bar>of_nat n :: rat\<bar> / quantum \<bar>of_nat n\<bar> = of_int (int n * 2 ^ k)"
    by (simp add: q)
  then have "rne (\<bar>of_nat n :: rat\<bar> / quantum \<bar>of_nat n\<bar>) = int n * 2 ^ k"
    by (simp only: rne_of_int)
  then show ?thesis
    using pos by (simp add: rnd_def q)
qed

lemma to_double_of_nat:
  assumes "n < 2 ^ 53"
  shows "to_double (of_nat n) = Finite (of_nat n)"
proof -
  have "(of_nat n :: rat) < of_nat (2 ^ 53)" using assms by (simp only: of_nat_less_iff)
  also have "\<dots> \<le> 2 ^ 1024" by simp
  finally have "(of_nat n :: rat) < 2 ^ 1024" .
  moreover have "- (2 ^ 1024) < (of_nat n :: rat)"
    by (rule less_le_trans [of _ 0]) simp_all
  ultimately show ?thesis
    by (simp add: to_double_def rnd_of_nat [OF assms] not_le)
qed

lemma fadd_of_nat:
  "a + b < 2 ^ 53 \<Longrightarrow> fadd (Finite (of_nat a)) (Finite (of_nat b)) = Finite (of_nat (a + b))"
  using to_double_of_nat [of "a + b"] by simp

section \<open>The advance buckets on doubles\<close>

lemma reduce_fadd_filter:
  "reduce (\<lambda>sum x. if P x then fadd sum (f x) else sum) a xs = reduce fadd a (map f (filter P xs))"
  unfolding reduce_def by (induction xs arbitrary: a) simp_all

lemma reduce_whole_numbers:
  assumes "acc + sum_list ns < 2 ^ 53"
  shows "reduce fadd (Finite (of_nat acc)) (map (\<lambda>n. Finite (of_nat n)) ns)
       = Finite (of_nat (acc + sum_list ns))"
  using assms unfolding reduce_def
proof (induction ns arbitrary: acc)
  case Nil
  then show ?case by simp
next
  case (Cons n ns)
  from Cons.prems have step: "acc + n < 2 ^ 53" and rest: "(acc + n) + sum_list ns < 2 ^ 53"
    by simp_all
  have "foldl fadd (Finite (of_nat acc)) (map (\<lambda>n. Finite (of_nat n)) (n # ns))
      = foldl fadd (Finite (of_nat (acc + n))) (map (\<lambda>n. Finite (of_nat n)) ns)"
    by (simp only: list.map foldl_Cons fadd_of_nat [OF step])
  also have "\<dots> = Finite (of_nat (acc + n + sum_list ns))"
    by (rule Cons.IH [OF rest])
  finally show ?case
    by (simp only: sum_list.Cons add.assoc)
qed

lemma calculateSiteFinancials_f64_advances:
  assumes "sid \<noteq> []" and "sid \<in> id_Site ` set sites"
  shows "totalAdvances_f64 (calculateSiteFinancials_f64 sites expenses advances funds invoices (Some sid))
       = reduce fadd (Finite 0) (map amount_Advance_f64
           (filter (\<lambda>a. purpose_f64 a \<notin> {SAFETY_SHOES, TOOLS, OTHER}) advances))"
    and "debitsToWorker_f64 (calculateSiteFinancials_f64 sites expenses advances funds invoices (Some sid))
       = reduce fadd (Finite 0) (map amount_Advance_f64
           (filter (\<lambda>a. purpose_f64 a \<in> {SAFETY_SHOES, TOOLS, OTHER}) advances))"
proof -
  obtain site where "find (\<lambda>s. Some (id_Site s) = Some sid) sites = Some site"
    using find_site_id [OF assms(2)] by blast
  then show "totalAdvances_f64 (calculateSiteFinancials_f64 sites expenses advances funds invoices (Some sid))
       = reduce fadd (Finite 0) (map amount_Advance_f64
           (filter (\<lambda>a. purpose_f64 a \<notin> {SAFETY_SHOES, TOOLS, OTHER}) advances))"
    and "debitsToWorker_f64 (calculateSiteFinancials_f64 sites expenses advances funds invoices (Some sid))
       = reduce fadd (Finite 0) (map amount_Advance_f64
           (filter (\<lambda>a. purpose_f64 a \<in> {SAFETY_SHOES, TOOLS, OTHER}) advances))"
    using assms(1)
    by (simp_all add: calculateSiteFinancials_f64_def truthy_string_def Let_def
        reduce_fadd_filter array_includes_DEBIT)
qed

lemma sum_list_filter_split:
  fixes f :: "'a \<Rightarrow> nat"
  shows "sum_list (map f (filter (\<lambda>x. \<not> P x) xs)) + sum_list (map f (filter P xs)) = sum_list (map f xs)"
  by (induction xs) simp_all

text \<open>C3, amended. For a target site found in the site list, every advance falls into
  exactly one of the two buckets: debitsToWorker is the running sum, in list order and
  with each addition rounded as the source's \<open>+\<close> rounds it, of the amounts whose purpose
  is one of SAFETY_SHOES, TOOLS, OTHER, and totalAdvances is that of all the others. When
  the amounts are whole numbers with a total below \<open>2^53\<close>, no addition rounds, and
  totalAdvances + debitsToWorker equals the sum of amount over all advances.\<close>

theorem calculateSiteFinancials_f64_advance_buckets:
  assumes "sid \<noteq> []" and "sid \<in> id_Site ` set sites"
  shows
  "totalAdvances_f64 (calculateSiteFinancials_f64 sites expenses advances funds invoices (Some sid))
     = reduce fadd (Finite 0) (map amount_Advance_f64
         (filter (\<lambda>a. purpose_f64 a \<notin> {SAFETY_SHOES, TOOLS, OTHER}) advances))
 \<and> debitsToWorker_f64 (calculateSiteFinancials_f64 sites expenses advances funds invoices (Some sid))
     = reduce fadd (Finite 0) (map amount_Advance_f64
         (filter (\<lambda>a. purpose_f64 a \<in> {SAFETY_SHOES, TOOLS, OTHER}) advances))
 \<and> (\<forall>pns. advances = map (\<lambda>pn. \<lparr>purpose_f64 = fst pn, amount_Advance_f64 = Finite (of_nat (snd pn))\<rparr>) pns
          \<and> sum_list (map snd pns) < 2 ^ 53 \<longrightarrow>
        fadd (totalAdvances_f64
                (calculateSiteFinancials_f64 sites expenses advances funds invoices (Some sid)))
             (debitsToWorker_f64
                (calculateSiteFinancials_f64 sites expenses advances funds invoices (Some sid)))
          = Finite (of_nat (sum_list (map snd pns)))
      \<and> reduce fadd (Finite 0) (map amount_Advance_f64 advances)
          = Finite (of_nat (sum_list (map snd pns))))"
proof (intro conjI allI impI)
  show "totalAdvances_f64 (calculateSiteFinancials_f64 sites expenses advances funds invoices (Some sid))
     = reduce fadd (Finite 0) (map amount_Advance_f64
         (filter (\<lambda>a. purpose_f64 a \<notin> {SAFETY_SHOES, TOOLS, OTHER}) advances))"
    by (rule calculateSiteFinancials_f64_advances [OF assms])
next
  show "debitsToWorker_f64 (calculateSiteFinancials_f64 sites expenses advances funds invoices (Some sid))
     = reduce fadd (Finite 0) (map amount_Advance_f64
         (filter (\<lambda>a. purpose_f64 a \<in> {SAFETY_SHOES, TOOLS, OTHER}) advances))"
    by (rule calculateSiteFinancials_f64_advances [OF assms])
next
  fix pns :: "(AdvancePurpose \<times> nat) list"
  assume h: "advances = map (\<lambda>pn. \<lparr>purpose_f64 = fst pn, amount_Advance_f64 = Finite (of_nat (snd pn))\<rparr>) pns
          \<and> sum_list (map snd pns) < 2 ^ 53"
  let ?D = "\<lambda>pn :: AdvancePurpose \<times> nat. fst pn \<in> {SAFETY_SHOES, TOOLS, OTHER}"
  let ?t = "sum_list (map snd (filter (\<lambda>pn. \<not> ?D pn) pns))"
  let ?d = "sum_list (map snd (filter ?D pns))"
  have split: "?t + ?d = sum_list (map snd pns)"
    by (rule sum_list_filter_split)
  with h have bt: "0 + ?t < 2 ^ 53" and bd: "0 + ?d < 2 ^ 53" and bs: "?t + ?d < 2 ^ 53"
    and ball: "0 + sum_list (map snd pns) < 2 ^ 53"
    by simp_all
  have amounts: "\<And>P. map amount_Advance_f64 (filter (\<lambda>a. P (purpose_f64 a)) advances)
      = map (\<lambda>n. Finite (of_nat n)) (map snd (filter (\<lambda>pn. P (fst pn)) pns))"
    using h by (simp add: filter_map comp_def)
  have T: "totalAdvances_f64 (calculateSiteFinancials_f64 sites expenses advances funds invoices (Some sid))
      = Finite (of_nat ?t)"
    using reduce_whole_numbers [OF bt] amounts [of "\<lambda>p. p \<notin> {SAFETY_SHOES, TOOLS, OTHER}"]
    by (simp add: calculateSiteFinancials_f64_advances [OF assms])
  have D: "debitsToWorker_f64 (calculateSiteFinancials_f64 sites expenses advances funds invoices (Some sid))
      = Finite (of_nat ?d)"
    using reduce_whole_numbers [OF bd] amounts [of "\<lambda>p. p \<in> {SAFETY_SHOES, TOOLS, OTHER}"]
    by (simp add: calculateSiteFinancials_f64_advances [OF assms])
  show "fadd (totalAdvances_f64
                (calculateSiteFinancials_f64 sites expenses advances funds invoices (Some sid)))
             (debitsToWorker_f64
                (calculateSiteFinancials_f64 sites expenses advances funds invoices (Some sid)))
          = Finite (of_nat (sum_list (map snd pns)))"
    unfolding T D using fadd_of_nat [OF bs] split by simp
  have "map amount_Advance_f64 advances = map (\<lambda>n. Finite (of_nat n)) (map snd pns)"
    using h by (simp add: comp_def)
  then show "reduce fadd (Finite 0) (map amount_Advance_f64 advances)
          = Finite (of_nat (sum_list (map snd pns)))"
    using reduce_whole_numbers [OF ball] by simp
qed

theorem calculateSiteFinancials_f64_advance_buckets_witness:
  "fadd (totalAdvances_f64 (calculateSiteFinancials_f64 [\<lparr>id_Site = ''s1''\<rparr>] []
            [\<lparr>purpose_f64 = ADVANCE, amount_Advance_f64 = Finite 1000\<rparr>,
             \<lparr>purpose_f64 = TOOLS, amount_Advance_f64 = Finite 300\<rparr>,
             \<lparr>purpose_f64 = UnlistedPurpose ''fuel'', amount_Advance_f64 = Finite 7\<rparr>]
            [] [] (Some ''s1'')))
        (debitsToWorker_f64 (calculateSiteFinancials_f64 [\<lparr>id_Site = ''s1''\<rparr>] []
            [\<lparr>purpose_f64 = ADVANCE, amount_Advance_f64 = Finite 1000\<rparr>,
             \<lparr>purpose_f64 = TOOLS, amount_Advance_f64 = Finite 300\<rparr>,
             \<lparr>purpose_f64 = UnlistedPurpose ''fuel'', amount_Advance_f64 = Finite 7\<rparr>]
            [] [] (Some ''s1''))) = Finite 1307
   \<and> reduce fadd (Finite 0) [Finite 1000, Finite 300, Finite 7] = Finite 1307"
proof -
  let ?pns = "[(ADVANCE, 1000), (TOOLS, 300), (UnlistedPurpose ''fuel'', 7)] :: (AdvancePurpose \<times> nat) list"
  let ?advances = "[\<lparr>purpose_f64 = ADVANCE, amount_Advance_f64 = Finite 1000\<rparr>,
             \<lparr>purpose_f64 = TOOLS, amount_Advance_f64 = Finite 300\<rparr>,
             \<lparr>purpose_f64 = UnlistedPurpose ''fuel'', amount_Advance_f64 = Finite 7\<rparr>]"
  have found: "''s1'' \<noteq> []" "''s1'' \<in> id_Site ` set [\<lparr>id_Site = ''s1''\<rparr>]"
    by simp_all
  have whole: "?advances = map (\<lambda>pn. \<lparr>purpose_f64 = fst pn, amount_Advance_f64 = Finite (of_nat (snd pn))\<rparr>) ?pns
      \<and> sum_list (map snd ?pns) < 2 ^ 53"
    by simp
  note T = calculateSiteFinancials_f64_advance_buckets [OF found, of "[]" ?advances "[]" "[]",
      THEN conjunct2, THEN conjunct2, THEN spec, of ?pns, THEN mp, OF whole]
  from T show ?thesis by simp
qed

text \<open>C3, as stated, fails on fractional amounts. With advances of 3.03 (ADVANCE), 0.53
  (TOOLS) and 1.63 (ADVANCE), each the double nearest to the decimal, totalAdvances is
  the double 4.66 and debitsToWorker the double 0.53; their sum is the double 5.19, while
  the sum over all advances in list order is the double just below it,
  5.1899999999999995. The exact sum of the two fields differs from the exact sum of the
  three amounts as well.\<close>

theorem calculateSiteFinancials_f64_advance_sum_counterexample:
  "totalAdvances_f64 (calculateSiteFinancials_f64 [\<lparr>id_Site = ''s1''\<rparr>] []
      [\<lparr>purpose_f64 = ADVANCE, amount_Advance_f64 = to_double (303 / 100)\<rparr>,
       \<lparr>purpose_f64 = TOOLS, amount_Advance_f64 = to_double (53 / 100)\<rparr>,
       \<lparr>purpose_f64 = ADVANCE, amount_Advance_f64 = to_double (163 / 100)\<rparr>]
      [] [] (Some ''s1'')) = Finite (1311673391471657 / 281474976710656)
   \<and> debitsToWorker_f64 (calculateSiteFinancials_f64 [\<lparr>id_Site = ''s1''\<rparr>] []
      [\<lparr>purpose_f64 = ADVANCE, amount_Advance_f64 = to_double (303 / 100)\<rparr>,
       \<lparr>purpose_f64 = TOOLS, amount_Advance_f64 = to_double (53 / 100)\<rparr>,
       \<lparr>purpose_f64 = ADVANCE, amount_Advance_f64 = to_double (163 / 100)\<rparr>]
      [] [] (Some ''s1'')) = Finite (2386907802506363 / 4503599627370496)
   \<and> fadd (Finite (1311673391471657 / 281474976710656)) (Finite (2386907802506363 / 4503599627370496))
       = Finite (5843420516513219 / 1125899906842624)
   \<and> reduce fadd (Finite 0) [to_double (303 / 100), to_double (53 / 100), to_double (163 / 100)]
       = Finite (2921710258256609 / 562949953421312)
   \<and> (5843420516513219 / 1125899906842624 :: rat) \<noteq> 2921710258256609 / 562949953421312
   \<and> (1311673391471657 / 281474976710656 + 2386907802506363 / 4503599627370496 :: rat)
       \<noteq> rnd (303 / 100) + rnd (53 / 100) + rnd (163 / 100)
   \<and> to_double (519 / 100) = Finite (5843420516513219 / 1125899906842624)"
proof -
  have found: "''s1'' \<noteq> []" "''s1'' \<in> id_Site ` set [\<lparr>id_Site = ''s1''\<rparr>]"
    by simp_all
  show ?thesis
    unfolding calculateSiteFinancials_f64_advances [OF found]
    by (simp add: reduce_def double_eval)
qed

section \<open>Properties of the increment_funds endpoint\<close>

lemma or_zero_cases:
  "truthy_json (Some f) \<Longrightarrow> or_zero (Some f) = f"
  "\<not> truthy_json v \<Longrightarrow> or_zero v = JNumber (Finite 0)"
  by (auto simp: or_zero_def split: option.splits)

text \<open>C7, amended. For a request other than OPTIONS: when the body cannot be read as
  JSON or is the JSON value \<open>null\<close>, the response is 500 with an error body; otherwise,
  when \<open>site_id\<close> is falsy (missing, \<open>null\<close>, \<open>false\<close>, 0 or the empty string) or
  \<open>amount\<close> is missing, it is 400 with an error body; otherwise, when the read of the
  site fails, or returns \<open>null\<close> for the row, or the addition throws (an object amount
  with a property named \<open>toString\<close>), or the write of the new value fails, it is 500 with
  an error body; otherwise it is 200 with success = true, previous_funds the stored funds
  value, or 0 when that value is falsy, and new_funds = previous_funds + amount by the
  operator \<open>+\<close> of the source (both as \<open>JSON.stringify\<close> sends them).\<close>

theorem serve_handler_responses:
  assumes "method_req req \<noteq> ''OPTIONS''"
  shows
  "((json_body req = None \<or> json_body req = Some JNull) \<longrightarrow>
      status (serve_handler shortest c req) = 500
    \<and> (\<exists>m. payload (serve_handler shortest c req) = ErrorBody m))
 \<and> (\<forall>body site_id amount.
      json_body req = Some body \<and> get_property body ''site_id'' = Inr site_id
        \<and> get_property body ''amount'' = Inr amount \<longrightarrow>
      ((\<not> truthy_json site_id \<or> amount = None) \<longrightarrow>
          status (serve_handler shortest c req) = 400
        \<and> (\<exists>m. payload (serve_handler shortest c req) = ErrorBody m))
    \<and> (\<forall>s a. site_id = Some s \<and> truthy_json (Some s) \<and> amount = Some a \<longrightarrow>
          (\<forall>e. select_funds c s = Inl e \<longrightarrow>
              status (serve_handler shortest c req) = 500
            \<and> (\<exists>m. payload (serve_handler shortest c req) = ErrorBody m))
        \<and> (\<forall>siteData. select_funds c s = Inr siteData \<longrightarrow>
              (get_property siteData ''funds'' = Inl TypeError \<longrightarrow>
                  status (serve_handler shortest c req) = 500
                \<and> (\<exists>m. payload (serve_handler shortest c req) = ErrorBody m))
            \<and> (\<forall>funds. get_property siteData ''funds'' = Inr funds \<longrightarrow>
                  (js_plus shortest (or_zero funds) a = Inl TypeError \<longrightarrow>
                      status (serve_handler shortest c req) = 500
                    \<and> (\<exists>m. payload (serve_handler shortest c req) = ErrorBody m))
                \<and> (\<forall>newFunds. js_plus shortest (or_zero funds) a = Inr newFunds \<longrightarrow>
                      (\<forall>e. update_funds c s newFunds = Inl e \<longrightarrow>
                          status (serve_handler shortest c req) = 500
                        \<and> (\<exists>m. payload (serve_handler shortest c req) = ErrorBody m))
                    \<and> (\<forall>d. update_funds c s newFunds = Inr d \<longrightarrow>
                          status (serve_handler shortest c req) = 200
                        \<and> payload (serve_handler shortest c req) = Success
                            \<lparr>success = True, data = d,
                             previous_funds = stringified (or_zero funds),
                             new_funds = stringified newFunds\<rparr>))))))
 \<and> (\<forall>f. truthy_json (Some f) \<longrightarrow> or_zero (Some f) = f)
 \<and> (\<forall>v. \<not> truthy_json v \<longrightarrow> or_zero v = JNumber (Finite 0))"
  using assms
  by (auto simp: serve_handler_def unexpected_def or_zero_cases)

theorem serve_handler_responses_witness:
  "(let c = \<lparr>select_funds = \<lambda>s. if s = JString ''s1'' then Inr (JObject [(''funds'', JNumber (Finite 100))])
                               else if s = JString ''s2'' then Inr (JObject [(''funds'', JNull)])
                               else Inl ''no rows'',
             update_funds = \<lambda>s v. if s = JString ''s2'' then Inl ''denied'' else Inr v\<rparr>;
        post = \<lambda>b. \<lparr>method_req = ''POST'', json_body = b\<rparr>
    in status (serve_handler (\<lambda>r. []) c (post None)) = 500
     \<and> status (serve_handler (\<lambda>r. []) c (post (Some (JObject [(''amount'', JNumber (Finite 5))])))) = 400
     \<and> status (serve_handler (\<lambda>r. []) c (post (Some (JObject
          [(''site_id'', JString ''s3''), (''amount'', JNumber (Finite 5))])))) = 500
     \<and> status (serve_handler (\<lambda>r. []) c (post (Some (JObject
          [(''site_id'', JString ''s1''), (''amount'', JObject [(''toString'', JNull)])])))) = 500
     \<and> status (serve_handler (\<lambda>r. []) c (post (Some (JObject
          [(''site_id'', JString ''s2''), (''amount'', JNumber (Finite 5))])))) = 500
     \<and> status (serve_handler (\<lambda>r. []) c (post (Some (JObject
          [(''site_id'', JString ''s1''), (''amount'', JNumber (Finite 50))])))) = 200
     \<and> payload (serve_handler (\<lambda>r. []) c (post (Some (JObject
          [(''site_id'', JString ''s1''), (''amount'', JNumber (Finite 50))]))))
        = Success \<lparr>success = True, data = JNumber (Finite 150),
            previous_funds = JNumber (Finite 100), new_funds = JNumber (Finite 150)\<rparr>)"
proof -
  let ?c = "\<lparr>select_funds = \<lambda>s. if s = JString ''s1'' then Inr (JObject [(''funds'', JNumber (Finite 100))])
                               else if s = JString ''s2'' then Inr (JObject [(''funds'', JNull)])
                               else Inl ''no rows'',
             update_funds = \<lambda>s v. if s = JString ''s2'' then Inl ''denied'' else Inr v\<rparr>
             :: json supabaseClient"
  have post: "\<And>b. method_req \<lparr>method_req = ''POST'', json_body = b\<rparr> \<noteq> ''OPTIONS''"
    by simp
  have sum: "fadd (Finite 100) (Finite 50) = Finite 150"
    using fadd_of_nat [of 100 50] by simp
  note T = serve_handler_responses [OF post, where c = ?c and shortest = "\<lambda>r. []"]
  show ?thesis
    unfolding Let_def
    using T [of None]
      T [of "Some (JObject [(''amount'', JNumber (Finite 5))])"]
      T [of "Some (JObject [(''site_id'', JString ''s3''), (''amount'', JNumber (Finite 5))])"]
      T [of "Some (JObject [(''site_id'', JString ''s1''), (''amount'', JObject [(''toString'', JNull)])])"]
      T [of "Some (JObject [(''site_id'', JString ''s2''), (''amount'', JNumber (Finite 5))])"]
      T [of "Some (JObject [(''site_id'', JString ''s1''), (''amount'', JNumber (Finite 50))])"]
    by (simp add: js_plus_def or_zero_def sum del: fadd.simps)
qed

text \<open>C7, as stated, fails in two places. A request whose body is not JSON makes
  \<open>req.json()\<close> throw, and the handler's \<open>catch\<close> answers 500, although no backend call
  fails (none is made) and the request carries no \<open>site_id\<close> and no \<open>amount\<close>, for which
  the claim gives 400. And for a stored \<open>funds\<close> of \<open>null\<close> the response has
  previous_funds 0, which is not the stored value.\<close>

theorem serve_handler_responses_counterexample:
  "serve_handler (\<lambda>r. [])
      \<lparr>select_funds = \<lambda>s. Inr (JObject [(''funds'', JNumber (Finite 100))]),
       update_funds = \<lambda>s v. Inr v\<rparr>
      \<lparr>method_req = ''POST'', json_body = None\<rparr>
     = \<lparr>status = 500, headers = jsonHeaders,
        payload = ErrorBody ''Unexpected error occurred''\<rparr>
   \<and> serve_handler (\<lambda>r. [])
      \<lparr>select_funds = \<lambda>s. Inr (JObject [(''funds'', JNull)]), update_funds = \<lambda>s v. Inr v\<rparr>
      \<lparr>method_req = ''POST'', json_body = Some (JObject
         [(''site_id'', JString ''s1''), (''amount'', JNumber (Finite 25))])\<rparr>
     = \<lparr>status = 200, headers = jsonHeaders,
        payload = Success \<lparr>success = True, data = JNumber (Finite 25),
          previous_funds = JNumber (Finite 0), new_funds = JNumber (Finite 25)\<rparr>\<rparr>"
  by (simp add: serve_handler_def unexpected_def or_zero_def js_plus_def double_eval)

lemma fadd_zero_left:
  "representable a \<Longrightarrow> fadd (Finite 0) a = a"
  by (cases a) (auto simp: to_double_def)

lemma js_plus_numbers:
  "js_plus shortest (JNumber x) (JNumber y) = Inr (JNumber (fadd x y))"
  by (simp add: js_plus_def)

lemma js_plus_zero_string:
  "js_plus shortest (JNumber (Finite 0)) (JString t) = Inr (JString (''0'' @ t))"
  by (simp add: js_plus_def)

text \<open>C10, amended. A request other than OPTIONS is answered 400 exactly when its body is
  JSON other than \<open>null\<close> and \<open>site_id\<close> is falsy or \<open>amount\<close> is undefined (a body that
  is not JSON, or is \<open>null\<close>, is answered 500). Every present amount passes validation,
  zero, negative and \<open>null\<close> included. For a numeric amount and a stored number, new_funds
  is their sum, so a negative amount lowers the stored value. A stored \<open>null\<close> or absent
  funds value counts as 0, which makes previous_funds 0 and new_funds the amount when the
  amount is a number; with a string amount, new_funds is the string \<open>0\<close> followed by the
  amount.\<close>

theorem serve_handler_validation:
  assumes "method_req req \<noteq> ''OPTIONS''"
  shows
  "(status (serve_handler shortest c req) = 400 \<longleftrightarrow>
      (\<exists>body site_id amount. json_body req = Some body
          \<and> get_property body ''site_id'' = Inr site_id
          \<and> get_property body ''amount'' = Inr amount
          \<and> (\<not> truthy_json site_id \<or> amount = None)))
 \<and> (\<forall>body s a siteData funds.
      json_body req = Some body
        \<and> get_property body ''site_id'' = Inr (Some s) \<and> truthy_json (Some s)
        \<and> get_property body ''amount'' = Inr (Some (JNumber a))
        \<and> select_funds c s = Inr siteData
        \<and> get_property siteData ''funds'' = Inr funds \<longrightarrow>
      (\<forall>f d. funds = Some (JNumber f) \<and> f \<noteq> NaN
            \<and> update_funds c s (JNumber (fadd f a)) = Inr d \<longrightarrow>
          serve_handler shortest c req =
            \<lparr>status = 200, headers = jsonHeaders, payload = Success
              \<lparr>success = True, data = d,
               previous_funds = stringified (JNumber f),
               new_funds = stringified (JNumber (fadd f a))\<rparr>\<rparr>)
    \<and> (\<forall>r d. (funds = None \<or> funds = Some JNull)
            \<and> a = Finite r \<and> representable (Finite r)
            \<and> update_funds c s (JNumber (Finite r)) = Inr d \<longrightarrow>
          serve_handler shortest c req =
            \<lparr>status = 200, headers = jsonHeaders, payload = Success
              \<lparr>success = True, data = d,
               previous_funds = JNumber (Finite 0),
               new_funds = JNumber (Finite r)\<rparr>\<rparr>))
 \<and> (\<forall>body s t siteData funds d.
      json_body req = Some body
        \<and> get_property body ''site_id'' = Inr (Some s) \<and> truthy_json (Some s)
        \<and> get_property body ''amount'' = Inr (Some (JString t))
        \<and> select_funds c s = Inr siteData
        \<and> get_property siteData ''funds'' = Inr funds
        \<and> (funds = None \<or> funds = Some JNull)
        \<and> update_funds c s (JString (''0'' @ t)) = Inr d \<longrightarrow>
      serve_handler shortest c req =
        \<lparr>status = 200, headers = jsonHeaders, payload = Success
          \<lparr>success = True, data = d,
           previous_funds = JNumber (Finite 0),
           new_funds = JString (''0'' @ t)\<rparr>\<rparr>)"
proof (intro conjI allI impI)
  show "status (serve_handler shortest c req) = 400 \<longleftrightarrow>
      (\<exists>body site_id amount. json_body req = Some body
          \<and> get_property body ''site_id'' = Inr site_id
          \<and> get_property body ''amount'' = Inr amount
          \<and> (\<not> truthy_json site_id \<or> amount = None))"
    using assms
    by (auto simp: serve_handler_def unexpected_def split: option.splits sum.splits)
next
  fix body s a siteData funds f d
  assume "json_body req = Some body
        \<and> get_property body ''site_id'' = Inr (Some s) \<and> truthy_json (Some s)
        \<and> get_property body ''amount'' = Inr (Some (JNumber a))
        \<and> select_funds c s = Inr siteData
        \<and> get_property siteData ''funds'' = Inr funds"
    and "funds = Some (JNumber f) \<and> f \<noteq> NaN
            \<and> update_funds c s (JNumber (fadd f a)) = Inr d"
  then show "serve_handler shortest c req =
            \<lparr>status = 200, headers = jsonHeaders, payload = Success
              \<lparr>success = True, data = d,
               previous_funds = stringified (JNumber f),
               new_funds = stringified (JNumber (fadd f a))\<rparr>\<rparr>"
    using assms
    by (auto simp: serve_handler_def or_zero_def js_plus_numbers)
next
  fix body s a siteData funds r d
  assume "json_body req = Some body
        \<and> get_property body ''site_id'' = Inr (Some s) \<and> truthy_json (Some s)
        \<and> get_property body ''amount'' = Inr (Some (JNumber a))
        \<and> select_funds c s = Inr siteData
        \<and> get_property siteData ''funds'' = Inr funds"
    and h: "(funds = None \<or> funds = Some JNull)
            \<and> a = Finite r \<and> representable (Finite r)
            \<and> update_funds c s (JNumber (Finite r)) = Inr d"
  moreover from h have "or_zero funds = JNumber (Finite 0)"
    by (auto simp: or_zero_def)
  moreover from h have "fadd (Finite 0) (Finite r) = Finite r"
    by (simp only: fadd_zero_left)
  ultimately show "serve_handler shortest c req =
            \<lparr>status = 200, headers = jsonHeaders, payload = Success
              \<lparr>success = True, data = d,
               previous_funds = JNumber (Finite 0),
               new_funds = JNumber (Finite r)\<rparr>\<rparr>"
    using assms
    by (auto simp: serve_handler_def js_plus_numbers simp del: fadd.simps)
next
  fix body s t siteData funds d
  assume h: "json_body req = Some body
        \<and> get_property body ''site_id'' = Inr (Some s) \<and> truthy_json (Some s)
        \<and> get_property body ''amount'' = Inr (Some (JString t))
        \<and> select_funds c s = Inr siteData
        \<and> get_property siteData ''funds'' = Inr funds
        \<and> (funds = None \<or> funds = Some JNull)
        \<and> update_funds c s (JString (''0'' @ t)) = Inr d"
  moreover from h have "or_zero funds = JNumber (Finite 0)"
    by (auto simp: or_zero_def)
  ultimately show "serve_handler shortest c req =
        \<lparr>status = 200, headers = jsonHeaders, payload = Success
          \<lparr>success = True, data = d,
           previous_funds = JNumber (Finite 0),
           new_funds = JString (''0'' @ t)\<rparr>\<rparr>"
    using assms
    by (auto simp: serve_handler_def js_plus_zero_string)
qed

theorem serve_handler_validation_witness:
  "(let c = \<lparr>select_funds = \<lambda>s. if s = JString ''s1''
                               then Inr (JObject [(''funds'', JNumber (Finite 100))])
                               else Inr (JObject [(''funds'', JNull)]),
             update_funds = \<lambda>s v. Inr v\<rparr>;
        post = \<lambda>b. \<lparr>method_req = ''POST'', json_body = Some (JObject b)\<rparr>
    in status (serve_handler (\<lambda>r. []) c
          (post [(''site_id'', JNumber (Finite 0)), (''amount'', JNumber (Finite 5))])) = 400
     \<and> status (serve_handler (\<lambda>r. []) c (post [(''site_id'', JString ''s1'')])) = 400
     \<and> status (serve_handler (\<lambda>r. []) c
          (post [(''site_id'', JString ''s1''), (''amount'', JNull)])) \<noteq> 400
     \<and> payload (serve_handler (\<lambda>r. []) c
          (post [(''site_id'', JString ''s1''), (''amount'', JNumber (Finite 0))]))
        = Success \<lparr>success = True, data = JNumber (Finite 100),
            previous_funds = JNumber (Finite 100), new_funds = JNumber (Finite 100)\<rparr>
     \<and> payload (serve_handler (\<lambda>r. []) c
          (post [(''site_id'', JString ''s1''), (''amount'', JNumber (Finite (- 30)))]))
        = Success \<lparr>success = True, data = JNumber (Finite 70),
            previous_funds = JNumber (Finite 100), new_funds = JNumber (Finite 70)\<rparr>
     \<and> payload (serve_handler (\<lambda>r. []) c
          (post [(''site_id'', JString ''s2''), (''amount'', JNumber (Finite 25))]))
        = Success \<lparr>success = True, data = JNumber (Finite 25),
            previous_funds = JNumber (Finite 0), new_funds = JNumber (Finite 25)\<rparr>)"
proof -
  let ?c = "\<lparr>select_funds = \<lambda>s. if s = JString ''s1''
                               then Inr (JObject [(''funds'', JNumber (Finite 100))])
                               else Inr (JObject [(''funds'', JNull)]),
             update_funds = \<lambda>s v. Inr v\<rparr> :: json supabaseClient"
  have post: "\<And>b. method_req \<lparr>method_req = ''POST'', json_body = b\<rparr> \<noteq> ''OPTIONS''"
    by simp
  have sums: "fadd (Finite 100) (Finite 0) = Finite 100"
    "fadd (Finite 100) (Finite (- 30)) = Finite 70"
    "representable (Finite 25)"
    by (simp_all add: double_eval)
  note T = serve_handler_validation [OF post, where c = ?c and shortest = "\<lambda>r. []"]
  show ?thesis
    unfolding Let_def
    using T [of "Some (JObject [(''site_id'', JNumber (Finite 0)), (''amount'', JNumber (Finite 5))])"]
      T [of "Some (JObject [(''site_id'', JString ''s1'')])"]
      T [of "Some (JObject [(''site_id'', JString ''s1''), (''amount'', JNull)])"]
      T [of "Some (JObject [(''site_id'', JString ''s1''), (''amount'', JNumber (Finite 0))])"]
      T [of "Some (JObject [(''site_id'', JString ''s1''), (''amount'', JNumber (Finite (- 30)))])"]
      T [of "Some (JObject [(''site_id'', JString ''s2''), (''amount'', JNumber (Finite 25))])"]
    by (simp add: sums del: fadd.simps representable.simps)
qed

text \<open>C10, as stated, fails in two places. With a stored \<open>null\<close> and the string amount
  \<open>"5"\<close>, the operator \<open>+\<close> concatenates and new_funds is \<open>"05"\<close>, not the amount. And a
  request whose body is the JSON value \<open>null\<close> has no truthy \<open>site_id\<close>, yet it is
  answered 500 and not 400: the destructuring throws before the validation.\<close>

theorem serve_handler_validation_counterexample:
  "serve_handler (\<lambda>r. [])
      \<lparr>select_funds = \<lambda>s. Inr (JObject [(''funds'', JNull)]), update_funds = \<lambda>s v. Inr v\<rparr>
      \<lparr>method_req = ''POST'', json_body = Some (JObject
         [(''site_id'', JString ''s1''), (''amount'', JString ''5'')])\<rparr>
     = \<lparr>status = 200, headers = jsonHeaders,
        payload = Success \<lparr>success = True, data = JString ''05'',
          previous_funds = JNumber (Finite 0), new_funds = JString ''05''\<rparr>\<rparr>
   \<and> serve_handler (\<lambda>r. [])
      \<lparr>select_funds = \<lambda>s. Inr (JObject [(''funds'', JNumber (Finite 100))]),
       update_funds = \<lambda>s v. Inr v\<rparr>
      \<lparr>method_req = ''POST'', json_body = Some JNull\<rparr>
     = \<lparr>status = 500, headers = jsonHeaders,
        payload = ErrorBody ''Unexpected error occurred''\<rparr>"
  by (simp add: serve_handler_def unexpected_def or_zero_def js_plus_def)

end
